theory Spec2Isabelle
  imports Main
begin

section \<open>JavaScript values and objects\<close>

text \<open>
  The values that flow through \<^verbatim>\<open>src/index.js\<close>: option values, thrown values and the
  \<^verbatim>\<open>error\<close> property of a collection handle. Numbers are the integral ones (pool
  sizes); \<open>JError m\<close> is an \<^verbatim>\<open>Error\<close> object with message \<open>m\<close>, \<open>JObj n\<close> any
  other object.
\<close>

datatype jsval =
    JUndefined
  | JNull
  | JBool bool
  | JNum int
  | JStr string
  | JError string
  | JObj nat

text \<open>JavaScript's truthiness, as \<^verbatim>\<open>if (collection.error)\<close> tests it.\<close>

fun truthy :: "jsval \<Rightarrow> bool" where
  "truthy JUndefined = False"
| "truthy JNull = False"
| "truthy (JBool b) = b"
| "truthy (JNum n) = (n \<noteq> 0)"
| "truthy (JStr s) = (s \<noteq> [])"
| "truthy (JError m) = True"
| "truthy (JObj n) = True"

text \<open>An options object: its own properties, by name.\<close>

type_synonym options = "string \<Rightarrow> jsval option"

text \<open>Line 5: \<^verbatim>\<open>const defaultOptions = { useNewUrlParser: true, useUnifiedTopology: true, maxPoolSize: 10 }\<close>.\<close>

definition defaultOptions :: options where
  "defaultOptions =
     [''useNewUrlParser'' \<mapsto> JBool True,
      ''useUnifiedTopology'' \<mapsto> JBool True,
      ''maxPoolSize'' \<mapsto> JNum 10]"

text \<open>Lines 10 and 11.\<close>

definition MAX_RETRIES :: nat where
  "MAX_RETRIES = 5"

definition RETRY_DELAY :: nat where
  "RETRY_DELAY = 5000"

section \<open>The driver\<close>

text \<open>
  A \<^verbatim>\<open>MongoClient\<close> object made by \<^verbatim>\<open>new MongoClient(url, options)\<close>: its identity
  (the number of clients constructed before it), and the URL and options it was built
  with.
\<close>

record mongo_client =
  cid :: nat
  curl :: string
  copts :: options

text \<open>
  \<^verbatim>\<open>client.connect()\<close> is called once on each client, right after its construction, so
  a connect promise is named by its client. It is fulfilled with the client itself.
\<close>

datatype promise = ConnectOf mongo_client

text \<open>\<^verbatim>\<open>client.db(dbName)\<close> and \<^verbatim>\<open>db.collection(collectionName)\<close>.\<close>

record database =
  dclient :: mongo_client
  dname :: string

record collection_handle =
  cdb :: database
  cname :: string
  error :: jsval

text \<open>
  What the driver and the server behind it do, as far as the module sees it: whether
  \<^verbatim>\<open>new MongoClient(url, options)\<close> returns a client (\<open>None\<close>) or throws a value, as it
  does for a URL it cannot parse or an option it refuses; whether the connect of the
  \<open>n\<close>-th client is fulfilled (\<open>None\<close>) or rejected with a value; whether
  \<^verbatim>\<open>client.close()\<close> of the \<open>n\<close>-th client is fulfilled or rejected; and the handle
  \<^verbatim>\<open>db.collection(name)\<close> returns.
\<close>

record backend =
  construct_result :: "string \<Rightarrow> options \<Rightarrow> jsval option"
  connect_result :: "nat \<Rightarrow> jsval option"
  close_result :: "nat \<Rightarrow> jsval option"
  collection :: "database \<Rightarrow> string \<Rightarrow> collection_handle"

text \<open>What a promise settles to: the value an \<^verbatim>\<open>await\<close> returns, or the value it throws.\<close>

datatype 'a outcome = Resolved 'a | Rejected jsval

text \<open>
  \<^verbatim>\<open>await p\<close> for a connect promise. The awaited value is a client; \<open>None\<close> stands for
  \<^verbatim>\<open>null\<close>, which only the module's own variable can hold.
\<close>

fun await :: "backend \<Rightarrow> promise \<Rightarrow> mongo_client option outcome" where
  "await B (ConnectOf c) =
     (case connect_result B (cid c) of
        None \<Rightarrow> Resolved (Some c)
      | Some e \<Rightarrow> Rejected e)"

section \<open>Module state\<close>

text \<open>
  Lines 7 and 8, \<^verbatim>\<open>let client; let clientPromise;\<close> (\<open>None\<close> is \<^verbatim>\<open>undefined\<close> or
  \<^verbatim>\<open>null\<close>), together with what the module has asked of the outside world: the number
  of clients constructed, and the calls to \<^verbatim>\<open>connect\<close>, \<^verbatim>\<open>setTimeout\<close> and
  \<^verbatim>\<open>close\<close> in the order they were made.
\<close>

datatype action = Connect nat | Wait nat | Close nat

record state =
  client :: "mongo_client option"
  clientPromise :: "promise option"
  nclients :: nat
  trace :: "action list"

definition init_state :: state where
  "init_state = \<lparr>client = None, clientPromise = None, nclients = 0, trace = []\<rparr>"

text \<open>
  Lines 17 and 20, when the constructor returns: a new client is made and its connect is
  started.
\<close>

definition start_connect :: "string \<Rightarrow> options \<Rightarrow> state \<Rightarrow> mongo_client \<times> state" where
  "start_connect url opts s =
     (let c = \<lparr>cid = nclients s, curl = url, copts = opts\<rparr>
      in (c, s\<lparr>client := Some c, clientPromise := Some (ConnectOf c),
               nclients := Suc (nclients s), trace := trace s @ [Connect (cid c)]\<rparr>))"

text \<open>Line 28: \<^verbatim>\<open>setTimeout(resolve, RETRY_DELAY)\<close>.\<close>

definition sleep :: "state \<Rightarrow> state" where
  "sleep s = s\<lparr>trace := trace s @ [Wait RETRY_DELAY]\<rparr>"

text \<open>Line 31: the error thrown when the retries are used up.\<close>

definition retries_exhausted :: jsval where
  "retries_exhausted = JError ''Failed to connect to database after several attempts.''"

section \<open>The functions of the module, one caller at a time\<close>

text \<open>
  Lines 14 to 36, for a caller that nothing interleaves with: every \<^verbatim>\<open>await\<close> returns
  before anything else touches the module. The result is what the returned promise
  settles to, and the state afterwards. Line 17 stands before the \<^verbatim>\<open>try\<close>: when the
  constructor throws, the assignment does not happen, nothing is caught or retried, and
  the call is rejected with the value thrown.
\<close>

function connectToDatabase ::
  "backend \<Rightarrow> string \<Rightarrow> options \<Rightarrow> nat \<Rightarrow> state \<Rightarrow> mongo_client option outcome \<times> state" where
  "connectToDatabase B url opts retries s =
     (case clientPromise s of
        None \<Rightarrow>
          (case construct_result B url opts of
             Some thrown \<Rightarrow> (Rejected thrown, s)
           | None \<Rightarrow>
               (let (c, s1) = start_connect url opts s in
                case await B (ConnectOf c) of
                  Resolved _ \<Rightarrow>
                    (case clientPromise s1 of
                       None \<Rightarrow> (Resolved None, s1)
                     | Some p \<Rightarrow> (await B p, s1))
                | Rejected e \<Rightarrow>
                    (let s2 = s1\<lparr>clientPromise := None\<rparr> in
                     if retries < MAX_RETRIES
                     then connectToDatabase B url opts (Suc retries) (sleep s2)
                     else (Rejected retries_exhausted, s2))))
      | Some p \<Rightarrow> (await B p, s))"
  by pat_completeness auto
termination
  by (relation "measure (\<lambda>(B, url, opts, retries, s). MAX_RETRIES - retries)") auto

text \<open>
  The value thrown by \<^verbatim>\<open>client.db(dbName)\<close> when \<^verbatim>\<open>client\<close> is \<^verbatim>\<open>null\<close>.
\<close>

definition null_deref :: jsval where
  "null_deref = JError ''TypeError: Cannot read properties of null''"

text \<open>
  Lines 39 to 42. The call passes two arguments, so \<^verbatim>\<open>retries\<close> takes its default,
  0. The local \<^verbatim>\<open>client\<close> shadows the module's variable and leaves it alone.
\<close>

definition getDatabase ::
  "backend \<Rightarrow> string \<Rightarrow> options \<Rightarrow> string \<Rightarrow> state \<Rightarrow> database outcome \<times> state" where
  "getDatabase B url opts dbName s =
     (case connectToDatabase B url opts 0 s of
        (Rejected e, s') \<Rightarrow> (Rejected e, s')
      | (Resolved None, s') \<Rightarrow> (Rejected null_deref, s')
      | (Resolved (Some c), s') \<Rightarrow> (Resolved \<lparr>dclient = c, dname = dbName\<rparr>, s'))"

text \<open>Lines 45 to 52.\<close>

definition getCollection ::
  "backend \<Rightarrow> string \<Rightarrow> options \<Rightarrow> string \<Rightarrow> string \<Rightarrow> state
     \<Rightarrow> collection_handle outcome \<times> state" where
  "getCollection B url opts dbName collectionName s =
     (case connectToDatabase B url opts 0 s of
        (Rejected e, s') \<Rightarrow> (Rejected e, s')
      | (Resolved None, s') \<Rightarrow> (Rejected null_deref, s')
      | (Resolved (Some c), s') \<Rightarrow>
          (let db = \<lparr>dclient = c, dname = dbName\<rparr>;
               col = collection B db collectionName
           in if truthy (error col) then (Rejected (error col), s')
              else (Resolved col, s')))"

text \<open>Lines 55 to 58.\<close>

definition initializeDatabase ::
  "backend \<Rightarrow> string \<Rightarrow> options \<Rightarrow> state \<Rightarrow> unit outcome \<times> state" where
  "initializeDatabase B url opts s =
     (case connectToDatabase B url opts 0 s of
        (Rejected e, s') \<Rightarrow> (Rejected e, s')
      | (Resolved _, s') \<Rightarrow> (Resolved (), s'))"

text \<open>
  Lines 61 to 68. When \<^verbatim>\<open>await client.close()\<close> throws, the two assignments after it
  are not reached and the error leaves the function.
\<close>

definition closeDatabase :: "backend \<Rightarrow> state \<Rightarrow> unit outcome \<times> state" where
  "closeDatabase B s =
     (case client s of
        None \<Rightarrow> (Resolved (), s)
      | Some c \<Rightarrow>
          (let s1 = s\<lparr>trace := trace s @ [Close (cid c)]\<rparr> in
           case close_result B (cid c) of
             None \<Rightarrow> (Resolved (), s1\<lparr>client := None, clientPromise := None\<rparr>)
           | Some e \<Rightarrow> (Rejected e, s1)))"

section \<open>Interleaved callers\<close>

text \<open>
  JavaScript runs one piece of code at a time, and a call gives way only at an
  \<^verbatim>\<open>await\<close>. A call in progress is a task, suspended at one of the module's awaits;
  between two awaits it runs without interruption.

  \<^item> \<open>AwaitConnect p retries url opts\<close>: in \<^verbatim>\<open>connectToDatabase\<close> at line 21,
    awaiting the connect promise \<open>p\<close> it has just stored;
  \<^item> \<open>Sleeping retries url opts\<close>: at line 28, in the timer, \<^verbatim>\<open>retries\<close> already
    incremented;
  \<^item> \<open>Returned p\<close>: line 35 has returned the promise \<open>p\<close>, and the caller's promise
    follows it;
  \<^item> \<open>Closing c\<close>: in \<^verbatim>\<open>closeDatabase\<close> at line 63, awaiting \<^verbatim>\<open>client.close()\<close>;
  \<^item> \<open>Done r\<close>: the call's promise has settled to \<open>r\<close> (\<open>Resolved None\<close> is
    \<^verbatim>\<open>null\<close> or \<^verbatim>\<open>undefined\<close>).
\<close>

datatype task =
    AwaitConnect promise nat string options
  | Sleeping nat string options
  | Returned promise
  | Closing mongo_client
  | Done "mongo_client option outcome"

text \<open>Line 35, \<^verbatim>\<open>return clientPromise\<close>, reads the variable when it runs.\<close>

definition return_clientPromise :: "state \<Rightarrow> task" where
  "return_clientPromise s =
     (case clientPromise s of None \<Rightarrow> Done (Resolved None) | Some p \<Rightarrow> Returned p)"

text \<open>A call of \<^verbatim>\<open>connectToDatabase(url, options, retries)\<close>, up to its first await.\<close>

definition enter :: "backend \<Rightarrow> string \<Rightarrow> options \<Rightarrow> nat \<Rightarrow> state \<Rightarrow> task \<times> state" where
  "enter B url opts retries s =
     (case clientPromise s of
        None \<Rightarrow>
          (case construct_result B url opts of
             Some thrown \<Rightarrow> (Done (Rejected thrown), s)
           | None \<Rightarrow>
               (let (c, s1) = start_connect url opts s
                in (AwaitConnect (ConnectOf c) retries url opts, s1)))
      | Some p \<Rightarrow> (return_clientPromise s, s))"

text \<open>A call of \<^verbatim>\<open>closeDatabase()\<close>, up to its await.\<close>

definition close_enter :: "state \<Rightarrow> task \<times> state" where
  "close_enter s =
     (case client s of
        None \<Rightarrow> (Done (Resolved None), s)
      | Some c \<Rightarrow> (Closing c, s\<lparr>trace := trace s @ [Close (cid c)]\<rparr>))"

text \<open>
  A suspended task goes on, from the await it stands at to the next one or to its end:
  the promise it awaited has settled (as the backend says), or its timer has fired.
\<close>

fun resume :: "backend \<Rightarrow> task \<Rightarrow> state \<Rightarrow> task \<times> state" where
  "resume B (AwaitConnect p retries url opts) s =
     (case await B p of
        Resolved _ \<Rightarrow> (return_clientPromise s, s)
      | Rejected e \<Rightarrow>
          (let s2 = s\<lparr>clientPromise := None\<rparr> in
           if retries < MAX_RETRIES
           then (Sleeping (Suc retries) url opts, sleep s2)
           else (Done (Rejected retries_exhausted), s2)))"
| "resume B (Sleeping retries url opts) s = enter B url opts retries s"
| "resume B (Returned p) s = (Done (await B p), s)"
| "resume B (Closing c) s =
     (case close_result B (cid c) of
        None \<Rightarrow> (Done (Resolved None), s\<lparr>client := None, clientPromise := None\<rparr>)
      | Some e \<Rightarrow> (Done (Rejected e), s))"
| "resume B (Done r) s = (Done r, s)"

text \<open>
  The module with its calls in progress, and what can happen next: a new call of
  \<^verbatim>\<open>connectToDatabase(url, options)\<close> (from \<^verbatim>\<open>getDatabase\<close>, \<^verbatim>\<open>getCollection\<close> or
  \<^verbatim>\<open>initializeDatabase\<close>), a new call of \<^verbatim>\<open>closeDatabase()\<close>, or the \<open>i\<close>-th call
  going on. Calls are numbered in the order they were made.
\<close>

record system =
  mem :: state
  tasks :: "task list"

definition init_system :: system where
  "init_system = \<lparr>mem = init_state, tasks = []\<rparr>"

datatype event = Call string options | CallClose | Resume nat

fun step :: "backend \<Rightarrow> event \<Rightarrow> system \<Rightarrow> system" where
  "step B (Call url opts) S =
     (let (t, s') = enter B url opts 0 (mem S) in \<lparr>mem = s', tasks = tasks S @ [t]\<rparr>)"
| "step B CallClose S =
     (let (t, s') = close_enter (mem S) in \<lparr>mem = s', tasks = tasks S @ [t]\<rparr>)"
| "step B (Resume i) S =
     (if i < length (tasks S)
      then (let (t, s') = resume B (tasks S ! i) (mem S)
            in \<lparr>mem = s', tasks = (tasks S)[i := t]\<rparr>)
      else S)"

definition run :: "backend \<Rightarrow> event list \<Rightarrow> system \<Rightarrow> system" where
  "run B evs S = fold (step B) evs S"

section \<open>Graceful shutdown\<close>

datatype signal = SIGTERM | SIGINT

text \<open>
  The callback of lines 73 to 77, from the moment \<^verbatim>\<open>server.close\<close> is handed it:
  \<^item> \<open>Registered\<close>: handed to the server, not called yet;
  \<^item> \<open>AwaitClose t\<close>: at line 75, awaiting \<^verbatim>\<open>closeDatabase()\<close>, which stands at \<open>t\<close>;
  \<^item> \<open>Exited\<close>: line 76 has called \<^verbatim>\<open>process.exit(0)\<close>;
  \<^item> \<open>Threw e\<close>: \<^verbatim>\<open>closeDatabase()\<close> was rejected with \<open>e\<close>, and line 76 is not reached.
\<close>

datatype callback = Registered | AwaitClose task | Exited | Threw jsval

text \<open>
  The process around the module: the listeners \<^verbatim>\<open>process.on\<close> has registered (each is
  the \<^verbatim>\<open>shutdown\<close> closure of one server, here a number), the calls of
  \<^verbatim>\<open>server.close(callback)\<close> made so far, each with its server and its callback, and
  the exit status once \<^verbatim>\<open>process.exit\<close> has been called.
\<close>

record host =
  module_state :: state
  listeners :: "(signal \<times> nat) list"
  close_requests :: "(nat \<times> callback) list"
  exit_code :: "int option"



text \<open>Lines 71 to 82.\<close>

definition setupGracefulShutdown :: "nat \<Rightarrow> host \<Rightarrow> host" where
  "setupGracefulShutdown server h =
     h\<lparr>listeners := listeners h @ [(SIGTERM, server), (SIGINT, server)]\<rparr>"




section \<open>The exported interface\<close>

text \<open>
  Lines 92 to 99. \<^verbatim>\<open>{ ...defaultOptions, maxPoolSize }\<close> copies the properties of
  \<^verbatim>\<open>defaultOptions\<close> and then sets \<^verbatim>\<open>maxPoolSize\<close> to the argument, whatever it is;
  an argument left out is \<^verbatim>\<open>undefined\<close>.
\<close>

record api =
  api_initializeDatabase :: "state \<Rightarrow> unit outcome \<times> state"
  api_getDatabase :: "string \<Rightarrow> state \<Rightarrow> database outcome \<times> state"
  api_getCollection :: "string \<Rightarrow> string \<Rightarrow> state \<Rightarrow> collection_handle outcome \<times> state"
  api_setupGracefulShutdown :: "nat \<Rightarrow> host \<Rightarrow> host"

definition init :: "backend \<Rightarrow> string \<Rightarrow> jsval \<Rightarrow> api" where
  "init B urlConnection maxPoolSize =
     (let options = defaultOptions(''maxPoolSize'' \<mapsto> maxPoolSize) in
      \<lparr>api_initializeDatabase = initializeDatabase B urlConnection options,
       api_getDatabase = (\<lambda>dbName. getDatabase B urlConnection options dbName),
       api_getCollection =
         (\<lambda>dbName collectionName. getCollection B urlConnection options dbName collectionName),
       api_setupGracefulShutdown = setupGracefulShutdown\<rparr>)"

section \<open>Observations and sample backends\<close>

text \<open>The connect calls of a trace, and the time its timers add up to.\<close>

definition attempts :: "action list \<Rightarrow> nat list" where
  "attempts tr = [n. Connect n \<leftarrow> tr]"

definition total_wait :: "action list \<Rightarrow> nat" where
  "total_wait tr = sum_list [ms. Wait ms \<leftarrow> tr]"

text \<open>
  The trace of a call that meets only failures: \<open>k\<close> times a connect and a wait, then a
  last connect, on clients \<open>n\<close>, \<open>n + 1\<close>, ...
\<close>

fun failing_run :: "nat \<Rightarrow> nat \<Rightarrow> action list" where
  "failing_run 0 n = [Connect n]"
| "failing_run (Suc k) n = Connect n # Wait RETRY_DELAY # failing_run k (Suc n)"

text \<open>Calls of \<^verbatim>\<open>connectToDatabase(url, options)\<close> made one after the other.\<close>

fun acquire_many ::
  "backend \<Rightarrow> (string \<times> options) list \<Rightarrow> state \<Rightarrow> mongo_client option outcome list \<times> state" where
  "acquire_many B [] s = ([], s)"
| "acquire_many B ((url, opts) # calls) s =
     (let (r, s1) = connectToDatabase B url opts 0 s;
          (rs, s2) = acquire_many B calls s1
      in (r # rs, s2))"

text \<open>A handle without an \<^verbatim>\<open>error\<close> property, as the driver makes them.\<close>

definition plain_collection :: "database \<Rightarrow> string \<Rightarrow> collection_handle" where
  "plain_collection d n = \<lparr>cdb = d, cname = n, error = JUndefined\<rparr>"

text \<open>
  A constructor that takes the URLs of the two schemes the driver knows and throws on any
  other.
\<close>

definition parse_url :: "string \<Rightarrow> options \<Rightarrow> jsval option" where
  "parse_url url opts =
     (if take 10 url = ''mongodb://'' \<or> take 14 url = ''mongodb+srv://'' then None
      else Some (JError ''MongoParseError: Invalid scheme''))"

text \<open>A server that is up, one that is down, and one that refuses the first connect only.\<close>

definition backend_up :: backend where
  "backend_up =
     \<lparr>construct_result = parse_url, connect_result = (\<lambda>n. None),
      close_result = (\<lambda>n. None), collection = plain_collection\<rparr>"

definition backend_down :: backend where
  "backend_down =
     \<lparr>construct_result = parse_url,
      connect_result = (\<lambda>n. Some (JError ''ECONNREFUSED'')), close_result = (\<lambda>n. None),
      collection = plain_collection\<rparr>"

definition backend_flaky :: backend where
  "backend_flaky =
     \<lparr>construct_result = parse_url,
      connect_result = (\<lambda>n. if n = 0 then Some (JError ''ECONNREFUSED'') else None),
      close_result = (\<lambda>n. None), collection = plain_collection\<rparr>"

text \<open>A server whose \<^verbatim>\<open>close\<close> is rejected, and one that marks every handle as failed.\<close>

definition backend_bad_close :: backend where
  "backend_bad_close =
     \<lparr>construct_result = parse_url, connect_result = (\<lambda>n. None),
      close_result = (\<lambda>n. Some (JError ''close failed'')),
      collection = plain_collection\<rparr>"

definition backend_marked :: backend where
  "backend_marked =
     \<lparr>construct_result = parse_url, connect_result = (\<lambda>n. None),
      close_result = (\<lambda>n. None),
      collection = (\<lambda>d n. \<lparr>cdb = d, cname = n, error = JError ''ns not found''\<rparr>)\<rparr>"

text \<open>
  The shape the two variables keep: a stored promise is the connect promise of the client
  that \<^verbatim>\<open>client\<close> holds.
\<close>

fun promise_client :: "promise \<Rightarrow> mongo_client" where
  "promise_client (ConnectOf c) = c"

definition paired :: "state \<Rightarrow> bool" where
  "paired s =
     (case clientPromise s of
        None \<Rightarrow> True
      | Some p \<Rightarrow> client s = Some (promise_client p))"

text \<open>Events other than a call of \<^verbatim>\<open>closeDatabase()\<close>.\<close>

fun no_close :: "event \<Rightarrow> bool" where
  "no_close CallClose = False"
| "no_close (Call url opts) = True"
| "no_close (Resume i) = True"

text \<open>A task that waits for the promise \<open>p\<close>, or has got the client \<open>c\<close> from it.\<close>

fun shares :: "mongo_client \<Rightarrow> task \<Rightarrow> bool" where
  "shares c (AwaitConnect p retries url opts) = (p = ConnectOf c)"
| "shares c (Returned p) = (p = ConnectOf c)"
| "shares c (Done r) = (r = Resolved (Some c))"
| "shares c (Sleeping retries url opts) = False"
| "shares c (Closing c') = False"

text \<open>The client that the first call of all makes.\<close>

definition first_client :: "string \<Rightarrow> options \<Rightarrow> mongo_client" where
  "first_client url opts = \<lparr>cid = 0, curl = url, copts = opts\<rparr>"

text \<open>The module and its callers all hold to the connect of the one client \<open>c\<close>.\<close>

definition sharing :: "mongo_client \<Rightarrow> system \<Rightarrow> bool" where
  "sharing c S =
     (client (mem S) = Some c \<and> clientPromise (mem S) = Some (ConnectOf c)
      \<and> attempts (trace (mem S)) = [cid c] \<and> list_all (shares c) (tasks S))"

text \<open>
  One task going on by itself, at most \<open>n\<close> times: what the single caller of the
  functions above amounts to among the interleaved ones.
\<close>

fun alone :: "backend \<Rightarrow> nat \<Rightarrow> task \<times> state \<Rightarrow> task \<times> state" where
  "alone B 0 ts = ts"
| "alone B (Suc n) ts = alone B n (resume B (fst ts) (snd ts))"

declare connectToDatabase.simps [simp del]

section \<open>Properties\<close>

subsection \<open>Retries\<close>

lemma attempts_append: "attempts (tr @ tr') = attempts tr @ attempts tr'"
  by (simp add: attempts_def)

lemma total_wait_append: "total_wait (tr @ tr') = total_wait tr + total_wait tr'"
  by (simp add: total_wait_def)

lemma attempts_failing_run: "attempts (failing_run k n) = [n..<n + Suc k]"
  by (induction k arbitrary: n) (simp_all add: attempts_def upt_rec)

lemma total_wait_failing_run: "total_wait (failing_run k n) = k * RETRY_DELAY"
  by (induction k arbitrary: n) (simp_all add: total_wait_def)

lemma connect_construct_fails:
  "clientPromise s = None \<Longrightarrow> construct_result B url opts = Some thrown \<Longrightarrow>
     connectToDatabase B url opts retries s = (Rejected thrown, s)"
  by (subst connectToDatabase.simps) simp

lemma connect_all_fail:
  "\<forall>n. connect_result B n \<noteq> None \<Longrightarrow> construct_result B url opts = None \<Longrightarrow>
   clientPromise s = None \<Longrightarrow> retries \<le> MAX_RETRIES \<Longrightarrow>
    connectToDatabase B url opts retries s =
      (Rejected retries_exhausted,
       s\<lparr>client := Some \<lparr>cid = nclients s + (MAX_RETRIES - retries), curl = url, copts = opts\<rparr>,
         clientPromise := None,
         nclients := nclients s + Suc (MAX_RETRIES - retries),
         trace := trace s @ failing_run (MAX_RETRIES - retries) (nclients s)\<rparr>)"
proof (induction B url opts retries s rule: connectToDatabase.induct)
  case (1 B url opts retries s)
  note down = "1.prems"(1) and made = "1.prems"(2) and unset = "1.prems"(3)
  obtain e where e: "connect_result B (nclients s) = Some e"
    using down by auto
  define c where "c = \<lparr>cid = nclients s, curl = url, copts = opts\<rparr>"
  define s1 where "s1 = snd (start_connect url opts s)"
  have sc: "start_connect url opts s = (c, s1)"
    by (simp add: start_connect_def c_def s1_def Let_def)
  have aw: "await B (ConnectOf c) = Rejected e"
    by (simp add: c_def e)
  show ?case
  proof (cases "retries < MAX_RETRIES")
    case True
    let ?s3 = "sleep (s1\<lparr>clientPromise := None\<rparr>)"
    have ih: "connectToDatabase B url opts (Suc retries) ?s3 =
      (Rejected retries_exhausted,
       ?s3\<lparr>client := Some \<lparr>cid = nclients ?s3 + (MAX_RETRIES - Suc retries),
                             curl = url, copts = opts\<rparr>,
           clientPromise := None,
           nclients := nclients ?s3 + Suc (MAX_RETRIES - Suc retries),
           trace := trace ?s3 @ failing_run (MAX_RETRIES - Suc retries) (nclients ?s3)\<rparr>)"
      using "1.IH"[OF unset made sc[symmetric] refl aw refl True down made] True
      by (simp add: sleep_def)
    obtain k where k: "MAX_RETRIES - retries = Suc k" "MAX_RETRIES - Suc retries = k"
      using True by (metis Suc_diff_Suc)
    show ?thesis
      apply (subst connectToDatabase.simps)
      apply (simp add: unset made sc aw True Let_def ih del: await.simps)
      apply (simp add: k sleep_def s1_def start_connect_def Let_def)
      done
  next
    case False
    then have z: "MAX_RETRIES - retries = 0" by simp
    show ?thesis
      apply (subst connectToDatabase.simps)
      apply (simp add: unset made sc aw False Let_def z del: await.simps)
      apply (simp add: s1_def start_connect_def Let_def)
      done
  qed
qed

text \<open>
  Claim C1. When every connect is rejected, one call of
  \<^verbatim>\<open>connectToDatabase(url, options)\<close> made while no promise is stored, with a URL and
  options from which the driver constructs a client, is rejected with the error of
  line 31, after exactly \<open>MAX_RETRIES + 1\<close> connects, each on a client of its own, with
  one wait of \<open>RETRY_DELAY\<close> between two consecutive connects and none after the last:
  \<open>MAX_RETRIES * RETRY_DELAY\<close> in all.
\<close>

theorem retry_bound:
  assumes "\<forall>n. connect_result B n \<noteq> None" and "construct_result B url opts = None"
    and "clientPromise s = None"
  shows "fst (connectToDatabase B url opts 0 s) = Rejected retries_exhausted
       \<and> trace (snd (connectToDatabase B url opts 0 s))
           = trace s @ failing_run MAX_RETRIES (nclients s)
       \<and> attempts (trace (snd (connectToDatabase B url opts 0 s)))
           = attempts (trace s) @ [nclients s..<nclients s + (MAX_RETRIES + 1)]
       \<and> total_wait (trace (snd (connectToDatabase B url opts 0 s)))
           = total_wait (trace s) + MAX_RETRIES * RETRY_DELAY
       \<and> nclients (snd (connectToDatabase B url opts 0 s)) = nclients s + (MAX_RETRIES + 1)"
  using connect_all_fail[OF assms, of 0]
  by (simp add: attempts_append total_wait_append attempts_failing_run total_wait_failing_run)

theorem retry_bound_witness:
  "fst (connectToDatabase backend_down ''mongodb://db'' defaultOptions 0 init_state)
     = Rejected (JError ''Failed to connect to database after several attempts.'')
   \<and> trace (snd (connectToDatabase backend_down ''mongodb://db'' defaultOptions 0 init_state))
     = [Connect 0, Wait 5000, Connect 1, Wait 5000, Connect 2, Wait 5000,
        Connect 3, Wait 5000, Connect 4, Wait 5000, Connect 5]
   \<and> nclients (snd (connectToDatabase backend_down ''mongodb://db'' defaultOptions 0 init_state))
     = 6"
proof -
  have five: "MAX_RETRIES = Suc (Suc (Suc (Suc (Suc 0))))"
    by (simp add: MAX_RETRIES_def)
  have down: "\<forall>n. connect_result backend_down n \<noteq> None"
    by (simp add: backend_down_def)
  have made: "construct_result backend_down ''mongodb://db'' defaultOptions = None"
    by (simp add: backend_down_def parse_url_def)
  have unset: "clientPromise init_state = None"
    by (simp add: init_state_def)
  show ?thesis
    using retry_bound[OF down made unset]
    by (simp add: init_state_def retries_exhausted_def five RETRY_DELAY_def)
qed

subsection \<open>The stored promise\<close>

lemma connect_stored:
  "clientPromise s = Some p \<Longrightarrow> connectToDatabase B url opts retries s = (await B p, s)"
  by (subst connectToDatabase.simps) simp

lemma connect_resolved:
  "connectToDatabase B url opts retries s = (Resolved v, s') \<Longrightarrow>
     \<exists>c. v = Some c \<and> clientPromise s' = Some (ConnectOf c) \<and> connect_result B (cid c) = None"
proof (induction B url opts retries s rule: connectToDatabase.induct)
  case (1 B url opts retries s)
  show ?case
  proof (cases "clientPromise s")
    case (Some p)
    obtain c where p: "p = ConnectOf c" by (cases p)
    from "1.prems" Some p show ?thesis
      by (auto simp: connect_stored split: option.splits)
  next
    case None
    define c where "c = \<lparr>cid = nclients s, curl = url, copts = opts\<rparr>"
    define s1 where "s1 = snd (start_connect url opts s)"
    have sc: "start_connect url opts s = (c, s1)"
      by (simp add: start_connect_def c_def s1_def Let_def)
    have cp: "clientPromise s1 = Some (ConnectOf c)"
      by (simp add: s1_def start_connect_def Let_def c_def)
    show ?thesis
    proof (cases "construct_result B url opts")
      case (Some thrown)
      from connect_construct_fails[OF None Some] "1.prems" show ?thesis
        by simp
    next
      case made: None
      show ?thesis
      proof (cases "connect_result B (cid c)")
        case ok: None
        have "connectToDatabase B url opts retries s = (Resolved (Some c), s1)"
          by (subst connectToDatabase.simps) (simp add: None made sc ok cp)
        with "1.prems" ok cp show ?thesis by auto
      next
        case (Some e)
        then have aw: "await B (ConnectOf c) = Rejected e" by simp
        show ?thesis
        proof (cases "retries < MAX_RETRIES")
          case True
          have "connectToDatabase B url opts retries s =
                connectToDatabase B url opts (Suc retries) (sleep (s1\<lparr>clientPromise := None\<rparr>))"
            by (subst connectToDatabase.simps)
               (simp add: None made sc aw True Let_def del: await.simps)
          with "1.prems" "1.IH"[OF None made sc[symmetric] refl aw refl True] show ?thesis
            by simp
        next
          case False
          have "connectToDatabase B url opts retries s =
                (Rejected retries_exhausted, s1\<lparr>clientPromise := None\<rparr>)"
            by (subst connectToDatabase.simps)
               (simp add: None made sc aw False Let_def del: await.simps)
          with "1.prems" show ?thesis by simp
        qed
      qed
    qed
  qed
qed

lemma acquire_many_stored:
  "clientPromise s = Some p \<Longrightarrow>
     acquire_many B calls s = (replicate (length calls) (await B p), s)"
  by (induction calls) (auto simp: connect_stored)

text \<open>
  Claim C2. Once a call of \<^verbatim>\<open>connectToDatabase\<close> has returned a connection, every
  later call, whatever its arguments, and every later \<^verbatim>\<open>getDatabase\<close>,
  \<^verbatim>\<open>getCollection\<close> and \<^verbatim>\<open>initializeDatabase\<close>, gets that same client and leaves
  the state as it was: no client is made, no connect is started and no timer is set.
  \<^verbatim>\<open>getDatabase\<close> returns the database of that client, and \<^verbatim>\<open>getCollection\<close> the
  collection the driver gives for that client, or its error.
\<close>

theorem memoization:
  assumes "connectToDatabase B url opts retries s = (Resolved v, s1)"
  shows "acquire_many B calls s1 = (replicate (length calls) (Resolved v), s1)
       \<and> connectToDatabase B url' opts' retries' s1 = (Resolved v, s1)
       \<and> (\<exists>c. v = Some c
            \<and> getDatabase B url' opts' dbName s1 = (Resolved \<lparr>dclient = c, dname = dbName\<rparr>, s1))
       \<and> snd (getCollection B url' opts' dbName collectionName s1) = s1
       \<and> initializeDatabase B url' opts' s1 = (Resolved (), s1)
       \<and> (\<exists>c. v = Some c
            \<and> fst (getCollection B url' opts' dbName collectionName s1)
                = (if truthy (error (collection B \<lparr>dclient = c, dname = dbName\<rparr> collectionName))
                   then Rejected (error (collection B \<lparr>dclient = c, dname = dbName\<rparr> collectionName))
                   else Resolved (collection B \<lparr>dclient = c, dname = dbName\<rparr> collectionName)))"
proof -
  from connect_resolved[OF assms] obtain c where
    c: "v = Some c" "clientPromise s1 = Some (ConnectOf c)" "connect_result B (cid c) = None"
    by blast
  have aw: "await B (ConnectOf c) = Resolved v"
    using c by simp
  show ?thesis
    using c aw
    by (simp add: acquire_many_stored connect_stored getDatabase_def getCollection_def
        initializeDatabase_def Let_def del: await.simps)
qed

lemma connect_up:
  "connectToDatabase backend_up ''mongodb://db'' opts 0 init_state =
     (Resolved (Some \<lparr>cid = 0, curl = ''mongodb://db'', copts = opts\<rparr>),
      \<lparr>client = Some \<lparr>cid = 0, curl = ''mongodb://db'', copts = opts\<rparr>,
       clientPromise = Some (ConnectOf \<lparr>cid = 0, curl = ''mongodb://db'', copts = opts\<rparr>),
       nclients = 1, trace = [Connect 0]\<rparr>)"
  by (subst connectToDatabase.simps)
     (simp add: init_state_def start_connect_def backend_up_def parse_url_def Let_def)

theorem memoization_witness:
  "acquire_many backend_up [(''mongodb://other'', Map.empty), (''mongodb://db'', defaultOptions)]
     (snd (connectToDatabase backend_up ''mongodb://db'' defaultOptions 0 init_state))
   = ([Resolved (Some \<lparr>cid = 0, curl = ''mongodb://db'', copts = defaultOptions\<rparr>),
       Resolved (Some \<lparr>cid = 0, curl = ''mongodb://db'', copts = defaultOptions\<rparr>)],
      snd (connectToDatabase backend_up ''mongodb://db'' defaultOptions 0 init_state))
   \<and> trace (snd (connectToDatabase backend_up ''mongodb://db'' defaultOptions 0 init_state))
     = [Connect 0]
   \<and> getCollection backend_up ''mongodb://other'' Map.empty ''app'' ''users''
       (snd (connectToDatabase backend_up ''mongodb://db'' defaultOptions 0 init_state))
     = (Resolved
         \<lparr>cdb = \<lparr>dclient = \<lparr>cid = 0, curl = ''mongodb://db'', copts = defaultOptions\<rparr>,
                  dname = ''app''\<rparr>,
           cname = ''users'', error = JUndefined\<rparr>,
        snd (connectToDatabase backend_up ''mongodb://db'' defaultOptions 0 init_state))
   \<and> getCollection backend_marked ''mongodb://other'' Map.empty ''app'' ''missing''
       (snd (connectToDatabase backend_marked ''mongodb://db'' defaultOptions 0 init_state))
     = (Rejected (JError ''ns not found''),
        snd (connectToDatabase backend_marked ''mongodb://db'' defaultOptions 0 init_state))"
proof -
  let ?c = "\<lparr>cid = 0, curl = ''mongodb://db'', copts = defaultOptions\<rparr>"
  let ?up = "snd (connectToDatabase backend_up ''mongodb://db'' defaultOptions 0 init_state)"
  let ?marked = "snd (connectToDatabase backend_marked ''mongodb://db'' defaultOptions 0 init_state)"
  have up: "connectToDatabase backend_up ''mongodb://db'' defaultOptions 0 init_state
      = (Resolved (Some ?c), ?up)"
    by (simp add: connect_up)
  have marked: "connectToDatabase backend_marked ''mongodb://db'' defaultOptions 0 init_state
      = (Resolved (Some ?c), ?marked)"
    by (subst (1 2) connectToDatabase.simps)
       (simp add: init_state_def start_connect_def backend_marked_def parse_url_def Let_def)
  have col_up: "collection backend_up \<lparr>dclient = ?c, dname = ''app''\<rparr> ''users''
      = \<lparr>cdb = \<lparr>dclient = ?c, dname = ''app''\<rparr>, cname = ''users'', error = JUndefined\<rparr>"
    by (simp add: backend_up_def plain_collection_def)
  have col_marked: "collection backend_marked \<lparr>dclient = ?c, dname = ''app''\<rparr> ''missing''
      = \<lparr>cdb = \<lparr>dclient = ?c, dname = ''app''\<rparr>, cname = ''missing'',
         error = JError ''ns not found''\<rparr>"
    by (simp add: backend_marked_def)
  note m_up = memoization[OF up, where calls =
      "[(''mongodb://other'', Map.empty), (''mongodb://db'', defaultOptions)]"
      and url' = "''mongodb://other''" and opts' = Map.empty and dbName = "''app''"
      and collectionName = "''users''"]
  note m_marked = memoization[OF marked, where url' = "''mongodb://other''"
      and opts' = Map.empty and dbName = "''app''" and collectionName = "''missing''"]
  have 1: "acquire_many backend_up
        [(''mongodb://other'', Map.empty), (''mongodb://db'', defaultOptions)] ?up
      = ([Resolved (Some ?c), Resolved (Some ?c)], ?up)"
    using m_up[THEN conjunct1] by (simp del: acquire_many.simps add: numeral_2_eq_2)
  have 2: "trace ?up = [Connect 0]"
    by (simp add: connect_up)
  have 3: "snd (getCollection backend_up ''mongodb://other'' Map.empty ''app'' ''users'' ?up) = ?up"
    using m_up by blast
  have 4: "fst (getCollection backend_up ''mongodb://other'' Map.empty ''app'' ''users'' ?up)
      = Resolved \<lparr>cdb = \<lparr>dclient = ?c, dname = ''app''\<rparr>, cname = ''users'', error = JUndefined\<rparr>"
  proof -
    from m_up obtain c where "c = ?c"
      and "fst (getCollection backend_up ''mongodb://other'' Map.empty ''app'' ''users'' ?up)
         = (if truthy (error (collection backend_up \<lparr>dclient = c, dname = ''app''\<rparr> ''users''))
            then Rejected (error (collection backend_up \<lparr>dclient = c, dname = ''app''\<rparr> ''users''))
            else Resolved (collection backend_up \<lparr>dclient = c, dname = ''app''\<rparr> ''users''))"
      by blast
    then show ?thesis
      by (simp add: col_up)
  qed
  have 5: "snd (getCollection backend_marked ''mongodb://other'' Map.empty ''app'' ''missing''
        ?marked) = ?marked"
    using m_marked by blast
  have 6: "fst (getCollection backend_marked ''mongodb://other'' Map.empty ''app'' ''missing''
        ?marked) = Rejected (JError ''ns not found'')"
  proof -
    from m_marked obtain c where "c = ?c"
      and "fst (getCollection backend_marked ''mongodb://other'' Map.empty ''app'' ''missing''
            ?marked)
         = (if truthy (error (collection backend_marked \<lparr>dclient = c, dname = ''app''\<rparr> ''missing''))
            then Rejected (error (collection backend_marked \<lparr>dclient = c, dname = ''app''\<rparr> ''missing''))
            else Resolved (collection backend_marked \<lparr>dclient = c, dname = ''app''\<rparr> ''missing''))"
      by blast
    then show ?thesis
      by (simp add: col_marked)
  qed
  show ?thesis
    using 1 2 3 4 5 6 by (simp only: prod_eq_iff fst_conv snd_conv simp_thms)
qed

subsection \<open>Arguments of a later call\<close>

text \<open>
  Claim C10. While a promise is stored, \<^verbatim>\<open>connectToDatabase\<close> does not look at its
  arguments: whatever the URL, the options and the retry count, it returns what the stored
  promise settles to and changes nothing. So \<^verbatim>\<open>getDatabase\<close> and \<^verbatim>\<open>getCollection\<close>
  called with another URL or other options, even ones the driver would refuse, get the
  database and the collection of the client the stored promise belongs to, the one built
  from the first URL.
\<close>

theorem arguments_ignored:
  assumes "clientPromise s = Some (ConnectOf c)"
  shows "connectToDatabase B url' opts' retries' s = (await B (ConnectOf c), s)
       \<and> connectToDatabase B url' opts' retries' s = connectToDatabase B url opts retries s
       \<and> getDatabase B url' opts' dbName s = getDatabase B url opts dbName s
       \<and> getCollection B url' opts' dbName collectionName s
           = getCollection B url opts dbName collectionName s
       \<and> getDatabase B url' opts' dbName s =
           (case connect_result B (cid c) of
              None \<Rightarrow> Resolved \<lparr>dclient = c, dname = dbName\<rparr>
            | Some e \<Rightarrow> Rejected e, s)
       \<and> getCollection B url' opts' dbName collectionName s =
           (case connect_result B (cid c) of
              None \<Rightarrow>
                if truthy (error (collection B \<lparr>dclient = c, dname = dbName\<rparr> collectionName))
                then Rejected (error (collection B \<lparr>dclient = c, dname = dbName\<rparr> collectionName))
                else Resolved (collection B \<lparr>dclient = c, dname = dbName\<rparr> collectionName)
            | Some e \<Rightarrow> Rejected e, s)"
  using assms
  by (simp add: connect_stored getDatabase_def getCollection_def Let_def split: option.splits)

theorem arguments_ignored_witness:
  "getDatabase backend_up ''http://elsewhere'' Map.empty ''app''
     (snd (connectToDatabase backend_up ''mongodb://db'' defaultOptions 0 init_state))
   = (Resolved \<lparr>dclient = \<lparr>cid = 0, curl = ''mongodb://db'', copts = defaultOptions\<rparr>,
                dname = ''app''\<rparr>,
      snd (connectToDatabase backend_up ''mongodb://db'' defaultOptions 0 init_state))
   \<and> getCollection backend_up ''http://elsewhere'' Map.empty ''app'' ''users''
     (snd (connectToDatabase backend_up ''mongodb://db'' defaultOptions 0 init_state))
   = (Resolved
       \<lparr>cdb = \<lparr>dclient = \<lparr>cid = 0, curl = ''mongodb://db'', copts = defaultOptions\<rparr>,
                dname = ''app''\<rparr>,
         cname = ''users'', error = JUndefined\<rparr>,
      snd (connectToDatabase backend_up ''mongodb://db'' defaultOptions 0 init_state))
   \<and> construct_result backend_up ''http://elsewhere'' Map.empty
     = Some (JError ''MongoParseError: Invalid scheme'')"
proof -
  let ?c = "\<lparr>cid = 0, curl = ''mongodb://db'', copts = defaultOptions\<rparr>"
  have stored: "clientPromise
      (snd (connectToDatabase backend_up ''mongodb://db'' defaultOptions 0 init_state))
      = Some (ConnectOf ?c)"
    by (simp add: connect_up)
  have up: "connect_result backend_up 0 = None"
    by (simp add: backend_up_def)
  have col: "collection backend_up \<lparr>dclient = ?c, dname = ''app''\<rparr> ''users''
      = \<lparr>cdb = \<lparr>dclient = ?c, dname = ''app''\<rparr>, cname = ''users'', error = JUndefined\<rparr>"
    by (simp add: backend_up_def plain_collection_def)
  have refused: "construct_result backend_up ''http://elsewhere'' Map.empty
     = Some (JError ''MongoParseError: Invalid scheme'')"
    by (simp add: backend_up_def parse_url_def)
  show ?thesis
    using arguments_ignored[OF stored, where B = backend_up and url' = "''http://elsewhere''"
        and opts' = Map.empty and dbName = "''app''" and collectionName = "''users''"]
    by (simp add: up col refused)
qed

subsection \<open>The retry count of a new call\<close>

lemma exhausted_twice:
  assumes "\<forall>n. connect_result B n \<noteq> None" and "construct_result B url opts = None"
    and "construct_result B url' opts' = None" and "clientPromise s = None"
  shows "connectToDatabase B url' opts' 0 (snd (connectToDatabase B url opts 0 s)) =
      (Rejected retries_exhausted,
       (snd (connectToDatabase B url opts 0 s))
        \<lparr>client := Some \<lparr>cid = nclients s + Suc MAX_RETRIES + MAX_RETRIES,
                           curl = url', copts = opts'\<rparr>,
         clientPromise := None,
         nclients := nclients s + Suc MAX_RETRIES + Suc MAX_RETRIES,
         trace := trace (snd (connectToDatabase B url opts 0 s))
                  @ failing_run MAX_RETRIES (nclients s + Suc MAX_RETRIES)\<rparr>)"
proof -
  let ?s1 = "snd (connectToDatabase B url opts 0 s)"
  have s1: "clientPromise ?s1 = None" "nclients ?s1 = nclients s + Suc MAX_RETRIES"
    using connect_all_fail[OF assms(1,2,4), of 0] by simp_all
  show ?thesis
    using connect_all_fail[OF assms(1,3) s1(1), of 0] s1(2) by simp
qed

text \<open>
  Claim C9. The retry count is an argument of the call, 0 when the caller gives none, and
  no state of the module holds it. After a call that used up its retries against a server
  that stays down, the next call from outside again makes \<open>MAX_RETRIES + 1\<close> connects
  with \<open>MAX_RETRIES\<close> waits before it fails (both calls with a URL and options from
  which the driver constructs a client).
\<close>

theorem retry_count_fresh:
  assumes "\<forall>n. connect_result B n \<noteq> None" and "construct_result B url opts = None"
    and "construct_result B url' opts' = None" and "clientPromise s = None"
  shows "fst (initializeDatabase B url opts s) = Rejected retries_exhausted
       \<and> fst (getDatabase B url' opts' dbName (snd (initializeDatabase B url opts s)))
           = Rejected retries_exhausted
       \<and> trace (snd (getDatabase B url' opts' dbName (snd (initializeDatabase B url opts s))))
           = trace (snd (initializeDatabase B url opts s))
             @ failing_run MAX_RETRIES (nclients (snd (initializeDatabase B url opts s)))
       \<and> length (attempts
             (trace (snd (getDatabase B url' opts' dbName (snd (initializeDatabase B url opts s))))))
           = length (attempts (trace (snd (initializeDatabase B url opts s)))) + (MAX_RETRIES + 1)
       \<and> total_wait
             (trace (snd (getDatabase B url' opts' dbName (snd (initializeDatabase B url opts s)))))
           = total_wait (trace (snd (initializeDatabase B url opts s))) + MAX_RETRIES * RETRY_DELAY"
proof -
  have 1: "initializeDatabase B url opts s =
           (Rejected retries_exhausted, snd (connectToDatabase B url opts 0 s))"
    using connect_all_fail[OF assms(1,2,4), of 0] by (simp add: initializeDatabase_def)
  have 2: "nclients (snd (connectToDatabase B url opts 0 s)) = nclients s + Suc MAX_RETRIES"
    using connect_all_fail[OF assms(1,2,4), of 0] by simp
  show ?thesis
    using exhausted_twice[OF assms]
    by (simp add: 1 2 getDatabase_def attempts_append total_wait_append
        attempts_failing_run total_wait_failing_run)
qed

theorem retry_count_fresh_witness:
  "fst (getDatabase backend_down ''mongodb://db'' defaultOptions ''app''
         (snd (initializeDatabase backend_down ''mongodb://db'' defaultOptions init_state)))
     = Rejected retries_exhausted
   \<and> attempts (trace (snd (getDatabase backend_down ''mongodb://db'' defaultOptions ''app''
         (snd (initializeDatabase backend_down ''mongodb://db'' defaultOptions init_state)))))
     = [0, 1, 2, 3, 4, 5, 6, 7, 8, 9, 10, 11]"
proof -
  have five: "MAX_RETRIES = Suc (Suc (Suc (Suc (Suc 0))))"
    by (simp add: MAX_RETRIES_def)
  have down: "\<forall>n. connect_result backend_down n \<noteq> None"
    by (simp add: backend_down_def)
  have made: "construct_result backend_down ''mongodb://db'' defaultOptions = None"
    by (simp add: backend_down_def parse_url_def)
  have init: "clientPromise init_state = None"
    by (simp add: init_state_def)
  have 1: "snd (initializeDatabase backend_down ''mongodb://db'' defaultOptions init_state)
           = snd (connectToDatabase backend_down ''mongodb://db'' defaultOptions 0 init_state)"
    using connect_all_fail[OF down made init, of 0]
    by (simp add: initializeDatabase_def)
  have 2: "trace (snd (connectToDatabase backend_down ''mongodb://db'' defaultOptions 0 init_state))
           = failing_run MAX_RETRIES 0
         \<and> nclients (snd (connectToDatabase backend_down ''mongodb://db'' defaultOptions 0 init_state))
           = Suc MAX_RETRIES"
    using connect_all_fail[OF down made init, of 0]
    by (simp add: init_state_def)
  show ?thesis
    using retry_count_fresh[OF down made made init, of "''app''"]
    by (simp add: 1 2 five attempts_def)
qed

subsection \<open>Lookup errors\<close>

text \<open>
  Claim C6. A handle that \<^verbatim>\<open>getCollection\<close> returns never has a set (truthy)
  \<^verbatim>\<open>error\<close> property; and when the connection is there and the handle the driver
  gives for the names has one, \<^verbatim>\<open>getCollection\<close> is rejected with the value of that
  property.
\<close>

theorem lookup_error_propagates:
  "(\<forall>col s'. getCollection B url opts dbName collectionName s = (Resolved col, s')
        \<longrightarrow> \<not> truthy (error col))
   \<and> (\<forall>c s'. connectToDatabase B url opts 0 s = (Resolved (Some c), s')
        \<longrightarrow> truthy (error (collection B \<lparr>dclient = c, dname = dbName\<rparr> collectionName))
        \<longrightarrow> getCollection B url opts dbName collectionName s
            = (Rejected (error (collection B \<lparr>dclient = c, dname = dbName\<rparr> collectionName)), s'))"
  by (auto simp: getCollection_def Let_def split: prod.splits outcome.splits option.splits if_splits)

theorem lookup_error_propagates_witness:
  "getCollection backend_marked ''mongodb://db'' defaultOptions ''db'' ''missing'' init_state
     = (Rejected (JError ''ns not found''),
        snd (connectToDatabase backend_marked ''mongodb://db'' defaultOptions 0 init_state))
   \<and> fst (getCollection backend_up ''mongodb://db'' defaultOptions ''db'' ''users'' init_state)
     = Resolved \<lparr>cdb = \<lparr>dclient = \<lparr>cid = 0, curl = ''mongodb://db'', copts = defaultOptions\<rparr>,
                        dname = ''db''\<rparr>,
                 cname = ''users'', error = JUndefined\<rparr>
   \<and> \<not> truthy (error \<lparr>cdb = \<lparr>dclient = \<lparr>cid = 0, curl = ''mongodb://db'', copts = defaultOptions\<rparr>,
                        dname = ''db''\<rparr>,
                 cname = ''users'', error = JUndefined\<rparr>)"
proof -
  have marked: "connectToDatabase backend_marked ''mongodb://db'' defaultOptions 0 init_state
      = (Resolved (Some \<lparr>cid = 0, curl = ''mongodb://db'', copts = defaultOptions\<rparr>),
         snd (connectToDatabase backend_marked ''mongodb://db'' defaultOptions 0 init_state))"
    by (subst (1 2) connectToDatabase.simps)
       (simp add: init_state_def start_connect_def backend_marked_def parse_url_def Let_def)
  have collection_up: "collection backend_up = plain_collection"
    by (simp add: backend_up_def)
  have up: "getCollection backend_up ''mongodb://db'' defaultOptions ''db'' ''users'' init_state
      = (Resolved \<lparr>cdb = \<lparr>dclient = \<lparr>cid = 0, curl = ''mongodb://db'', copts = defaultOptions\<rparr>,
                        dname = ''db''\<rparr>,
                 cname = ''users'', error = JUndefined\<rparr>,
         snd (connectToDatabase backend_up ''mongodb://db'' defaultOptions 0 init_state))"
    by (simp add: getCollection_def connect_up collection_up plain_collection_def)
  show ?thesis
    using lookup_error_propagates[of backend_marked "''mongodb://db''" defaultOptions "''db''"
        "''missing''" init_state]
      lookup_error_propagates[of backend_up "''mongodb://db''" defaultOptions "''db''"
        "''users''" init_state]
      marked up
    by (simp add: backend_marked_def)
qed

subsection \<open>The options of \<open>init\<close>\<close>

lemma connect_uses_arguments:
  "clientPromise s = None \<Longrightarrow> construct_result B url opts = None \<Longrightarrow>
     \<exists>c. client (snd (connectToDatabase B url opts retries s)) = Some c
        \<and> curl c = url \<and> copts c = opts"
proof (induction B url opts retries s rule: connectToDatabase.induct)
  case (1 B url opts retries s)
  note unset = "1.prems"(1) and made = "1.prems"(2)
  define c where "c = \<lparr>cid = nclients s, curl = url, copts = opts\<rparr>"
  define s1 where "s1 = snd (start_connect url opts s)"
  have sc: "start_connect url opts s = (c, s1)"
    by (simp add: start_connect_def c_def s1_def Let_def)
  have s1: "clientPromise s1 = Some (ConnectOf c)" "client s1 = Some c"
    by (simp_all add: s1_def start_connect_def Let_def c_def)
  show ?case
  proof (cases "connect_result B (cid c)")
    case None
    have "connectToDatabase B url opts retries s = (Resolved (Some c), s1)"
      by (subst connectToDatabase.simps) (simp add: unset made sc None s1)
    then show ?thesis by (simp add: s1 c_def)
  next
    case (Some e)
    then have aw: "await B (ConnectOf c) = Rejected e" by simp
    show ?thesis
    proof (cases "retries < MAX_RETRIES")
      case True
      have "connectToDatabase B url opts retries s =
            connectToDatabase B url opts (Suc retries) (sleep (s1\<lparr>clientPromise := None\<rparr>))"
        by (subst connectToDatabase.simps)
           (simp add: unset made sc aw True Let_def del: await.simps)
      with "1.IH"[OF unset made sc[symmetric] refl aw refl True] made show ?thesis
        by (simp add: sleep_def)
    next
      case False
      have "connectToDatabase B url opts retries s =
            (Rejected retries_exhausted, s1\<lparr>clientPromise := None\<rparr>)"
        by (subst connectToDatabase.simps)
           (simp add: unset made sc aw False Let_def del: await.simps)
      then show ?thesis by (simp add: s1 c_def)
    qed
  qed
qed

lemma initialize_state:
  "snd (initializeDatabase B url opts s) = snd (connectToDatabase B url opts 0 s)"
  by (simp add: initializeDatabase_def split: prod.splits outcome.splits)

lemma init_options:
  assumes "clientPromise s = None"
    and "construct_result B url (defaultOptions(''maxPoolSize'' \<mapsto> maxPoolSize)) = None"
  shows "\<exists>c. client (snd (api_initializeDatabase (init B url maxPoolSize) s)) = Some c
        \<and> copts c ''maxPoolSize'' = Some maxPoolSize
        \<and> copts c ''useNewUrlParser'' = Some (JBool True)
        \<and> copts c ''useUnifiedTopology'' = Some (JBool True)"
proof -
  from connect_uses_arguments[OF assms, of 0]
  obtain c where c: "client (snd (connectToDatabase B url
        (defaultOptions(''maxPoolSize'' \<mapsto> maxPoolSize)) 0 s)) = Some c"
      "copts c = defaultOptions(''maxPoolSize'' \<mapsto> maxPoolSize)"
    by blast
  have "api_initializeDatabase (init B url maxPoolSize)
        = initializeDatabase B url (defaultOptions(''maxPoolSize'' \<mapsto> maxPoolSize))"
    by (simp add: init_def Let_def)
  with c show ?thesis
    by (simp add: initialize_state defaultOptions_def)
qed

text \<open>
  Claim C8, at the input where the code departs from it: \<^verbatim>\<open>init(url)\<close>, with no pool
  size, hands the driver options whose \<^verbatim>\<open>maxPoolSize\<close> is \<^verbatim>\<open>undefined\<close>, not the 10
  of \<^verbatim>\<open>defaultOptions\<close>; a pool size that is given is the one handed on.
\<close>

theorem init_without_pool_size:
  "map_option (\<lambda>c. copts c ''maxPoolSize'')
     (client (snd (api_initializeDatabase (init backend_up ''mongodb://db'' JUndefined) init_state)))
     = Some (Some JUndefined)
   \<and> map_option (\<lambda>c. copts c ''maxPoolSize'')
     (client (snd (api_initializeDatabase (init backend_up ''mongodb://db'' (JNum 25)) init_state)))
     = Some (Some (JNum 25))
   \<and> defaultOptions ''maxPoolSize'' = Some (JNum 10)"
proof -
  have unset: "clientPromise init_state = None"
    by (simp add: init_state_def)
  have made: "construct_result backend_up ''mongodb://db'' opts = None" for opts
    by (simp add: backend_up_def parse_url_def)
  from init_options[OF unset made, of JUndefined] init_options[OF unset made, of "JNum 25"]
  show ?thesis
    by (auto simp: defaultOptions_def)
qed

subsection \<open>Closing\<close>

text \<open>
  Claim C4 as stated fails: when \<^verbatim>\<open>client.close()\<close> is rejected, the rejection leaves
  \<^verbatim>\<open>closeDatabase\<close> and both variables keep their values.
\<close>

theorem close_error_escapes:
  "fst (closeDatabase backend_bad_close
          (snd (connectToDatabase backend_bad_close ''mongodb://db'' defaultOptions 0 init_state)))
     = Rejected (JError ''close failed'')
   \<and> client (snd (closeDatabase backend_bad_close
          (snd (connectToDatabase backend_bad_close ''mongodb://db'' defaultOptions 0 init_state))))
     = Some \<lparr>cid = 0, curl = ''mongodb://db'', copts = defaultOptions\<rparr>
   \<and> clientPromise (snd (closeDatabase backend_bad_close
          (snd (connectToDatabase backend_bad_close ''mongodb://db'' defaultOptions 0 init_state))))
     = Some (ConnectOf \<lparr>cid = 0, curl = ''mongodb://db'', copts = defaultOptions\<rparr>)"
proof -
  have "connectToDatabase backend_bad_close ''mongodb://db'' defaultOptions 0 init_state =
     (Resolved (Some \<lparr>cid = 0, curl = ''mongodb://db'', copts = defaultOptions\<rparr>),
      \<lparr>client = Some \<lparr>cid = 0, curl = ''mongodb://db'', copts = defaultOptions\<rparr>,
       clientPromise = Some (ConnectOf \<lparr>cid = 0, curl = ''mongodb://db'', copts = defaultOptions\<rparr>),
       nclients = 1, trace = [Connect 0]\<rparr>)"
    by (subst connectToDatabase.simps)
       (simp add: init_state_def start_connect_def backend_bad_close_def parse_url_def Let_def)
  then show ?thesis
    by (simp add: closeDatabase_def backend_bad_close_def Let_def)
qed

text \<open>
  Claim C4, amended. \<^verbatim>\<open>closeDatabase\<close> does nothing and succeeds when \<^verbatim>\<open>client\<close> is
  unset. When it is set and the driver's \<^verbatim>\<open>close\<close> succeeds, it closes that client
  once, clears \<^verbatim>\<open>client\<close> and \<^verbatim>\<open>clientPromise\<close>, and a second call right after does
  nothing and succeeds. When the driver's \<^verbatim>\<open>close\<close> is rejected, the call is rejected
  with the same value and the two variables are left as they were.
\<close>

theorem close_database:
  "(client s = None \<longrightarrow> closeDatabase B s = (Resolved (), s))
   \<and> (\<forall>c. client s = Some c \<and> close_result B (cid c) = None \<longrightarrow>
         fst (closeDatabase B s) = Resolved ()
       \<and> client (snd (closeDatabase B s)) = None
       \<and> clientPromise (snd (closeDatabase B s)) = None
       \<and> trace (snd (closeDatabase B s)) = trace s @ [Close (cid c)]
       \<and> closeDatabase B (snd (closeDatabase B s)) = (Resolved (), snd (closeDatabase B s)))
   \<and> (\<forall>c e. client s = Some c \<and> close_result B (cid c) = Some e \<longrightarrow>
         closeDatabase B s = (Rejected e, s\<lparr>trace := trace s @ [Close (cid c)]\<rparr>))"
  by (simp add: closeDatabase_def Let_def)

theorem close_database_witness:
  "closeDatabase backend_up init_state = (Resolved (), init_state)
   \<and> fst (closeDatabase backend_up
        (snd (connectToDatabase backend_up ''mongodb://db'' defaultOptions 0 init_state)))
     = Resolved ()
   \<and> client (snd (closeDatabase backend_up
        (snd (connectToDatabase backend_up ''mongodb://db'' defaultOptions 0 init_state))))
     = None
   \<and> clientPromise (snd (closeDatabase backend_up
        (snd (connectToDatabase backend_up ''mongodb://db'' defaultOptions 0 init_state))))
     = None
   \<and> trace (snd (closeDatabase backend_up
        (snd (connectToDatabase backend_up ''mongodb://db'' defaultOptions 0 init_state))))
     = [Connect 0, Close 0]
   \<and> fst (closeDatabase backend_up (snd (closeDatabase backend_up
        (snd (connectToDatabase backend_up ''mongodb://db'' defaultOptions 0 init_state)))))
     = Resolved ()"
proof -
  let ?s1 = "snd (connectToDatabase backend_up ''mongodb://db'' defaultOptions 0 init_state)"
  have s1: "client ?s1 = Some \<lparr>cid = 0, curl = ''mongodb://db'', copts = defaultOptions\<rparr>"
      "trace ?s1 = [Connect 0]"
    by (simp_all add: connect_up)
  have up: "close_result backend_up 0 = None"
    by (simp add: backend_up_def)
  have init: "client init_state = None"
    by (simp add: init_state_def)
  show ?thesis
    using close_database[of init_state backend_up] close_database[of ?s1 backend_up]
    by (simp add: init up s1)
qed

subsection \<open>The two variables\<close>

lemma ConnectOf_promise_client [simp]: "ConnectOf (promise_client p) = p"
  by (cases p) simp

lemma paired_enter: "paired s \<Longrightarrow> paired (snd (enter B url opts retries s))"
  by (auto simp: paired_def enter_def start_connect_def Let_def split: option.splits)

lemma paired_close_enter: "paired s \<Longrightarrow> paired (snd (close_enter s))"
  by (auto simp: paired_def close_enter_def split: option.splits)

lemma paired_resume: "paired s \<Longrightarrow> paired (snd (resume B t s))"
  by (cases t)
     (auto simp: paired_def sleep_def Let_def paired_enter[unfolded paired_def]
           split: option.splits outcome.splits)

lemma paired_step: "paired (mem S) \<Longrightarrow> paired (mem (step B e S))"
proof (cases e)
  case (Call url opts)
  assume "paired (mem S)"
  from paired_enter[OF this, of B url opts 0] Call show ?thesis
    by (auto split: prod.splits)
next
  case CallClose
  assume "paired (mem S)"
  from paired_close_enter[OF this] CallClose show ?thesis
    by (auto split: prod.splits)
next
  case (Resume i)
  assume p: "paired (mem S)"
  from paired_resume[OF p, of B "tasks S ! i"] p Resume show ?thesis
    by (auto split: prod.splits)
qed

lemma paired_run: "paired (mem S) \<Longrightarrow> paired (mem (run B evs S))"
  unfolding run_def by (induction evs arbitrary: S) (simp_all add: paired_step)

text \<open>
  Claim C7 as stated fails: from the start of a connect until it fails or the connection
  is closed, \<^verbatim>\<open>client\<close> and \<^verbatim>\<open>clientPromise\<close> are both set. Here one caller has
  connected and got its client.
\<close>

theorem both_set_when_connected:
  "client (mem (run backend_up [Call ''mongodb://db'' defaultOptions, Resume 0, Resume 0] init_system))
     = Some \<lparr>cid = 0, curl = ''mongodb://db'', copts = defaultOptions\<rparr>
   \<and> clientPromise
       (mem (run backend_up [Call ''mongodb://db'' defaultOptions, Resume 0, Resume 0] init_system))
     = Some (ConnectOf \<lparr>cid = 0, curl = ''mongodb://db'', copts = defaultOptions\<rparr>)
   \<and> tasks (run backend_up [Call ''mongodb://db'' defaultOptions, Resume 0, Resume 0] init_system)
     = [Done (Resolved (Some \<lparr>cid = 0, curl = ''mongodb://db'', copts = defaultOptions\<rparr>))]"
  by (simp add: run_def init_system_def init_state_def enter_def start_connect_def
      return_clientPromise_def backend_up_def parse_url_def Let_def)

text \<open>
  Claim C7, amended. Whatever calls of \<^verbatim>\<open>connectToDatabase\<close> (so of \<^verbatim>\<open>getDatabase\<close>,
  \<^verbatim>\<open>getCollection\<close> and \<^verbatim>\<open>initializeDatabase\<close>) and of \<^verbatim>\<open>closeDatabase\<close> are made,
  and however they interleave at their awaits, between two pieces of running code the
  variables are in one of three states: both unset; \<^verbatim>\<open>client\<close> set and
  \<^verbatim>\<open>clientPromise\<close> unset; or both set, \<^verbatim>\<open>clientPromise\<close> being the connect promise
  of the client that \<^verbatim>\<open>client\<close> holds. \<^verbatim>\<open>clientPromise\<close> is never set while
  \<^verbatim>\<open>client\<close> is unset, and never the promise of another client.
\<close>

theorem variables_paired:
  "paired (mem (run B evs init_system))
   \<and> (case (client (mem (run B evs init_system)), clientPromise (mem (run B evs init_system))) of
         (None, None) \<Rightarrow> True
       | (Some c, None) \<Rightarrow> True
       | (Some c, Some p) \<Rightarrow> p = ConnectOf c
       | (None, Some p) \<Rightarrow> False)"
proof -
  have "paired (mem init_system)"
    by (simp add: paired_def init_system_def init_state_def)
  then have p: "paired (mem (run B evs init_system))"
    by (rule paired_run)
  then show ?thesis
    by (auto simp: paired_def split: option.splits)
qed

subsection \<open>Callers that share a connect\<close>

lemma sharing_call:
  "sharing c S \<Longrightarrow> sharing c (step B (Call url opts) S)"
  by (simp add: sharing_def enter_def return_clientPromise_def)

lemma resume_shares:
  assumes "connect_result B (cid c) = None" and "clientPromise s = Some (ConnectOf c)"
    and "shares c t"
  shows "snd (resume B t s) = s \<and> shares c (fst (resume B t s))"
  using assms by (cases t) (simp_all add: return_clientPromise_def)

lemma sharing_resume:
  assumes "connect_result B (cid c) = None" and "sharing c S"
  shows "sharing c (step B (Resume i) S)"
proof (cases "i < length (tasks S)")
  case False
  with assms(2) show ?thesis by simp
next
  case True
  from assms(2) have cp: "clientPromise (mem S) = Some (ConnectOf c)"
    and all: "list_all (shares c) (tasks S)"
    by (simp_all add: sharing_def)
  from all True have "shares c (tasks S ! i)"
    by (simp add: list_all_length)
  obtain t' s' where res: "resume B (tasks S ! i) (mem S) = (t', s')"
    by (cases "resume B (tasks S ! i) (mem S)")
  from resume_shares[OF assms(1) cp \<open>shares c (tasks S ! i)\<close>] res
  have r: "s' = mem S" "shares c t'"
    by simp_all
  have upd: "list_all (shares c) ((tasks S)[i := t'])"
    using all r(2) by (auto simp: list_all_iff dest!: subsetD[OF set_update_subset_insert])
  have "step B (Resume i) S = \<lparr>mem = mem S, tasks = (tasks S)[i := t']\<rparr>"
    using True res r(1) by simp
  with assms(2) upd show ?thesis
    by (simp add: sharing_def)
qed

lemma sharing_step:
  "connect_result B (cid c) = None \<Longrightarrow> no_close e \<Longrightarrow> sharing c S \<Longrightarrow> sharing c (step B e S)"
  by (cases e) (simp_all add: sharing_call sharing_resume del: step.simps)

lemma sharing_run:
  "connect_result B (cid c) = None \<Longrightarrow> list_all no_close evs \<Longrightarrow> sharing c S
     \<Longrightarrow> sharing c (run B evs S)"
  unfolding run_def
  by (induction evs arbitrary: S) (simp_all add: sharing_step del: step.simps)

lemma first_call:
  "construct_result B url opts = None \<Longrightarrow>
   step B (Call url opts) init_system =
     \<lparr>mem = \<lparr>client = Some (first_client url opts),
              clientPromise = Some (ConnectOf (first_client url opts)),
              nclients = 1, trace = [Connect 0]\<rparr>,
      tasks = [AwaitConnect (ConnectOf (first_client url opts)) 0 url opts]\<rparr>"
  by (simp add: init_system_def init_state_def enter_def start_connect_def first_client_def Let_def)

lemma first_call_not_constructed:
  "construct_result B url opts = Some thrown \<Longrightarrow>
   step B (Call url opts) init_system
     = \<lparr>mem = init_state, tasks = [Done (Rejected thrown)]\<rparr>"
  by (simp add: init_system_def init_state_def enter_def)

lemma sharing_first_call:
  "construct_result B url opts = None \<Longrightarrow>
   sharing (first_client url opts) (step B (Call url opts) init_system)"
  unfolding first_call by (simp add: sharing_def attempts_def first_client_def)

lemma run_Cons: "run B (e # evs) S = run B evs (step B e S)"
  by (simp add: run_def)

lemma run_append: "run B (evs @ evs') S = run B evs' (run B evs S)"
  by (simp add: run_def)

lemma later_calls:
  "clientPromise (mem S) = Some p \<Longrightarrow>
     run B (map (\<lambda>(u, v). Call u v) others) S
       = S\<lparr>tasks := tasks S @ replicate (length others) (Returned p)\<rparr>"
proof (induction others arbitrary: S)
  case Nil
  then show ?case by (simp add: run_def)
next
  case (Cons a others)
  obtain u v where a: "a = (u, v)" by (cases a)
  have st: "step B (Call u v) S = S\<lparr>tasks := tasks S @ [Returned p]\<rparr>"
    using Cons.prems by (simp add: enter_def return_clientPromise_def)
  have "clientPromise (mem (S\<lparr>tasks := tasks S @ [Returned p]\<rparr>)) = Some p"
    using Cons.prems by simp
  from Cons.IH[OF this] show ?case
    by (simp add: a run_Cons st replicate_app_Cons_same del: step.simps)
qed

lemma sharing_finish:
  assumes "connect_result B (cid c) = None" and "sharing c S" and "i < length (tasks S)"
  shows "tasks (run B [Resume i, Resume i] S) ! i = Done (Resolved (Some c))"
proof -
  from assms(2) have cp: "clientPromise (mem S) = Some (ConnectOf c)"
    and all: "list_all (shares c) (tasks S)"
    by (simp_all add: sharing_def)
  from all assms(3) have sh: "shares c (tasks S ! i)"
    by (simp add: list_all_length)
  show ?thesis
    using sh cp assms(1,3)
    by (cases "tasks S ! i")
       (simp_all add: run_def return_clientPromise_def split: prod.splits)
qed

text \<open>
  Claim C3 as stated fails when the shared connect is rejected. Two callers, a server
  that refuses the first connect only: the second caller, who found the promise stored,
  is rejected with the error of that connect, while the first caller waits, starts a
  second connect of its own and gets a client.
\<close>

theorem joined_caller_fails_alone:
  "tasks (run backend_flaky
      [Call ''mongodb://db'' defaultOptions, Call ''mongodb://db'' defaultOptions,
       Resume 0, Resume 1, Resume 0, Resume 0, Resume 0] init_system)
     = [Done (Resolved (Some \<lparr>cid = 1, curl = ''mongodb://db'', copts = defaultOptions\<rparr>)),
        Done (Rejected (JError ''ECONNREFUSED''))]
   \<and> trace (mem (run backend_flaky
      [Call ''mongodb://db'' defaultOptions, Call ''mongodb://db'' defaultOptions,
       Resume 0, Resume 1, Resume 0, Resume 0, Resume 0] init_system))
     = [Connect 0, Wait RETRY_DELAY, Connect 1]"
  by (simp add: run_def init_system_def init_state_def enter_def start_connect_def
      return_clientPromise_def backend_flaky_def parse_url_def sleep_def MAX_RETRIES_def Let_def)

text \<open>
  Claim C3, amended. Of the calls made before any connection exists, the first, given a
  URL and options from which the driver constructs a client, starts a connect, and every
  other one finds the promise stored and takes it, starting nothing: after them one
  connect has been started. When that connect succeeds it stays the only one, whatever
  calls are made later and however the callers go on (no \<^verbatim>\<open>closeDatabase\<close> among
  them): every caller is waiting for that one promise or has got its client, and each
  gets that client once it has gone on twice.
\<close>

theorem deduplication:
  "construct_result B url opts = None \<longrightarrow>
   tasks (run B (Call url opts # map (\<lambda>(u, v). Call u v) others) init_system)
     = AwaitConnect (ConnectOf (first_client url opts)) 0 url opts
       # replicate (length others) (Returned (ConnectOf (first_client url opts)))
   \<and> trace (mem (run B (Call url opts # map (\<lambda>(u, v). Call u v) others) init_system))
     = [Connect 0]
   \<and> (connect_result B 0 = None \<longrightarrow>
        (\<forall>evs. list_all no_close evs \<longrightarrow>
           attempts (trace (mem (run B (Call url opts # evs) init_system))) = [0]
         \<and> list_all (shares (first_client url opts)) (tasks (run B (Call url opts # evs) init_system))
         \<and> (\<forall>i < length (tasks (run B (Call url opts # evs) init_system)).
               tasks (run B [Resume i, Resume i] (run B (Call url opts # evs) init_system)) ! i
                 = Done (Resolved (Some (first_client url opts))))))"
proof
  assume made: "construct_result B url opts = None"
  let ?c = "first_client url opts"
  have cid: "cid ?c = 0"
    by (simp add: first_client_def)
  have calls: "run B (Call url opts # map (\<lambda>(u, v). Call u v) others) init_system
      = (step B (Call url opts) init_system)
          \<lparr>tasks := tasks (step B (Call url opts) init_system)
                    @ replicate (length others) (Returned (ConnectOf ?c))\<rparr>"
    unfolding run_Cons by (rule later_calls) (simp add: first_call[OF made] del: step.simps)
  have 1: "tasks (run B (Call url opts # map (\<lambda>(u, v). Call u v) others) init_system)
     = AwaitConnect (ConnectOf ?c) 0 url opts # replicate (length others) (Returned (ConnectOf ?c))"
    unfolding calls first_call[OF made] by simp
  have 2: "trace (mem (run B (Call url opts # map (\<lambda>(u, v). Call u v) others) init_system))
     = [Connect 0]"
    unfolding calls first_call[OF made] by simp
  have 3: "attempts (trace (mem (run B (Call url opts # evs) init_system))) = [0]
         \<and> list_all (shares ?c) (tasks (run B (Call url opts # evs) init_system))
         \<and> (\<forall>i < length (tasks (run B (Call url opts # evs) init_system)).
               tasks (run B [Resume i, Resume i] (run B (Call url opts # evs) init_system)) ! i
                 = Done (Resolved (Some ?c)))"
    if ok: "connect_result B 0 = None" and evs: "list_all no_close evs" for evs
  proof -
    have ok': "connect_result B (cid ?c) = None"
      using ok cid by simp
    have sh: "sharing ?c (run B (Call url opts # evs) init_system)"
      unfolding run_Cons by (rule sharing_run[OF ok' evs sharing_first_call[OF made]])
    from sh sharing_finish[OF ok' sh] cid show ?thesis
      by (simp add: sharing_def)
  qed
  from 1 2 3 show "tasks (run B (Call url opts # map (\<lambda>(u, v). Call u v) others) init_system)
     = AwaitConnect (ConnectOf (first_client url opts)) 0 url opts
       # replicate (length others) (Returned (ConnectOf (first_client url opts)))
   \<and> trace (mem (run B (Call url opts # map (\<lambda>(u, v). Call u v) others) init_system))
     = [Connect 0]
   \<and> (connect_result B 0 = None \<longrightarrow>
        (\<forall>evs. list_all no_close evs \<longrightarrow>
           attempts (trace (mem (run B (Call url opts # evs) init_system))) = [0]
         \<and> list_all (shares (first_client url opts)) (tasks (run B (Call url opts # evs) init_system))
         \<and> (\<forall>i < length (tasks (run B (Call url opts # evs) init_system)).
               tasks (run B [Resume i, Resume i] (run B (Call url opts # evs) init_system)) ! i
                 = Done (Resolved (Some (first_client url opts))))))"
    by blast
qed

theorem deduplication_witness:
  "tasks (run backend_up
      [Call ''mongodb://db'' defaultOptions, Call ''mongodb://db'' defaultOptions,
       Call ''mongodb://db'' defaultOptions] init_system)
     = [AwaitConnect (ConnectOf (first_client ''mongodb://db'' defaultOptions)) 0
          ''mongodb://db'' defaultOptions,
        Returned (ConnectOf (first_client ''mongodb://db'' defaultOptions)),
        Returned (ConnectOf (first_client ''mongodb://db'' defaultOptions))]
   \<and> attempts (trace (mem (run backend_up
      [Call ''mongodb://db'' defaultOptions, Call ''mongodb://db'' defaultOptions,
       Call ''mongodb://db'' defaultOptions, Resume 1, Resume 0, Resume 2] init_system)))
     = [0]
   \<and> tasks (run backend_up [Resume 2, Resume 2] (run backend_up
      [Call ''mongodb://db'' defaultOptions, Call ''mongodb://db'' defaultOptions,
       Call ''mongodb://db'' defaultOptions, Resume 1, Resume 0, Resume 2] init_system)) ! 2
     = Done (Resolved (Some (first_client ''mongodb://db'' defaultOptions)))"
proof -
  have up: "connect_result backend_up 0 = None"
    by (simp add: backend_up_def)
  have made: "construct_result backend_up ''mongodb://db'' defaultOptions = None"
    by (simp add: backend_up_def parse_url_def)
  have evs: "list_all no_close
      [Call ''mongodb://db'' defaultOptions, Call ''mongodb://db'' defaultOptions,
       Resume 1, Resume 0, Resume 2]"
    by simp
  have len: "length (tasks (run backend_up
      [Call ''mongodb://db'' defaultOptions, Call ''mongodb://db'' defaultOptions,
       Call ''mongodb://db'' defaultOptions, Resume 1, Resume 0, Resume 2] init_system)) = 3"
    by (simp add: run_def init_system_def enter_def start_connect_def init_state_def
        return_clientPromise_def backend_up_def parse_url_def Let_def)
  from deduplication[of backend_up "''mongodb://db''" defaultOptions
      "[(''mongodb://db'', defaultOptions), (''mongodb://db'', defaultOptions)]"]
  show ?thesis
    using up made evs len by (auto simp: eval_nat_numeral)
qed

subsection \<open>Signals\<close>






subsection \<open>One caller among the interleaved ones\<close>

lemma alone_Done: "alone B n (Done r, s) = (Done r, s)"
  by (induction n) simp_all

text \<open>
  A call of \<^verbatim>\<open>connectToDatabase\<close> that goes on with nothing in between ends as the
  function for one caller says, in the same state.
\<close>

lemma connect_alone:
  "\<exists>n. alone B n (enter B url opts retries s)
        = (Done (fst (connectToDatabase B url opts retries s)),
           snd (connectToDatabase B url opts retries s))"
proof (induction B url opts retries s rule: connectToDatabase.induct)
  case (1 B url opts retries s)
  show ?case
  proof (cases "clientPromise s")
    case (Some p)
    then have "alone B (Suc 0) (enter B url opts retries s)
        = (Done (fst (connectToDatabase B url opts retries s)),
           snd (connectToDatabase B url opts retries s))"
      by (simp add: enter_def return_clientPromise_def connect_stored del: await.simps)
    then show ?thesis ..
  next
    case None
    show ?thesis
    proof (cases "construct_result B url opts")
      case (Some thrown)
      have "alone B 0 (enter B url opts retries s)
          = (Done (fst (connectToDatabase B url opts retries s)),
             snd (connectToDatabase B url opts retries s))"
        by (simp add: enter_def None Some connect_construct_fails[OF None Some])
      then show ?thesis ..
    next
      case made: None
      define c where "c = \<lparr>cid = nclients s, curl = url, copts = opts\<rparr>"
      define s1 where "s1 = snd (start_connect url opts s)"
      have sc: "start_connect url opts s = (c, s1)"
        by (simp add: start_connect_def c_def s1_def Let_def)
      have cp: "clientPromise s1 = Some (ConnectOf c)"
        by (simp add: s1_def start_connect_def Let_def c_def)
      have en: "enter B url opts retries s = (AwaitConnect (ConnectOf c) retries url opts, s1)"
        by (simp add: enter_def None made sc)
      show ?thesis
      proof (cases "connect_result B (cid c)")
        case ok: None
        have "connectToDatabase B url opts retries s = (Resolved (Some c), s1)"
          by (subst connectToDatabase.simps) (simp add: None made sc ok cp)
        then have "alone B (Suc (Suc 0)) (enter B url opts retries s)
          = (Done (fst (connectToDatabase B url opts retries s)),
             snd (connectToDatabase B url opts retries s))"
          by (simp add: en ok cp return_clientPromise_def)
        then show ?thesis ..
      next
        case (Some e)
        then have aw: "await B (ConnectOf c) = Rejected e" by simp
        show ?thesis
        proof (cases "retries < MAX_RETRIES")
          case True
          let ?s3 = "sleep (s1\<lparr>clientPromise := None\<rparr>)"
          have eq: "connectToDatabase B url opts retries s =
                connectToDatabase B url opts (Suc retries) ?s3"
            by (subst connectToDatabase.simps)
               (simp add: None made sc aw True Let_def del: await.simps)
          from "1.IH"[OF None made sc[symmetric] refl aw refl True]
          obtain n where n: "alone B n (enter B url opts (Suc retries) ?s3)
              = (Done (fst (connectToDatabase B url opts (Suc retries) ?s3)),
                 snd (connectToDatabase B url opts (Suc retries) ?s3))"
            by blast
          have "alone B (Suc (Suc n)) (enter B url opts retries s)
              = (Done (fst (connectToDatabase B url opts retries s)),
                 snd (connectToDatabase B url opts retries s))"
            by (simp add: en aw True Let_def n eq del: await.simps)
          then show ?thesis ..
        next
          case False
          have "connectToDatabase B url opts retries s =
                (Rejected retries_exhausted, s1\<lparr>clientPromise := None\<rparr>)"
            by (subst connectToDatabase.simps)
               (simp add: None made sc aw False Let_def del: await.simps)
          then have "alone B (Suc 0) (enter B url opts retries s)
              = (Done (fst (connectToDatabase B url opts retries s)),
                 snd (connectToDatabase B url opts retries s))"
            by (simp add: en aw False Let_def del: await.simps)
          then show ?thesis ..
        qed
      qed
    qed
  qed
qed

text \<open>The same for \<^verbatim>\<open>closeDatabase\<close>, whose promise carries no value.\<close>

lemma close_alone:
  "alone B (Suc 0) (close_enter s)
     = (Done (case fst (closeDatabase B s) of
                Resolved u \<Rightarrow> Resolved None
              | Rejected e \<Rightarrow> Rejected e),
        snd (closeDatabase B s))"
  by (simp add: close_enter_def closeDatabase_def Let_def split: option.splits)

end
